theory Spec2Isabelle
  imports Complex_Main
begin

section \<open>Pressure-sole dashboard: timeline synchronisation and pressure derivation\<close>

text \<open>
  The development embeds the computations of the delivery view
  (\<^verbatim>\<open>DeliveryDetail\<close>: event index, global zero, per-foot alignment, phase markers),
  of the heat-map player (\<^verbatim>\<open>PressureHeatmapSVG\<close>: \<^verbatim>\<open>findClosestPoint\<close>,
  \<^verbatim>\<open>calculateCoP\<close>, region sums, the playback state) and of
  \<^verbatim>\<open>RegionalPressureTimeline\<close>.

  A TypeScript \<^verbatim>\<open>number\<close> is modelled as a \<^typ>\<open>real\<close>: arithmetic is exact, and the
  values \<^verbatim>\<open>NaN\<close> and \<^verbatim>\<open>Infinity\<close>, which JSON cannot carry, are not part of the
  model (the one \<^verbatim>\<open>Infinity\<close> the code writes itself, the start value of
  \<^verbatim>\<open>minTime\<close>, is \<open>None\<close> of an option). Stance identifiers are integers.
\<close>

subsection \<open>JavaScript containers\<close>

text \<open>
  A \<^verbatim>\<open>Map\<close> and a plain object (\<^verbatim>\<open>Record<string, T>\<close>) keep their keys in
  insertion order. Both are association lists: \<open>js_get\<close> reads the first binding of a
  key, \<open>js_set\<close> overwrites the binding of a key in place or appends a new one (as
  \<^verbatim>\<open>Map.prototype.set\<close> and property assignment do), \<open>js_keys\<close> lists each key once,
  in order (\<^verbatim>\<open>Object.keys\<close>).
\<close>

definition js_get :: "('k \<times> 'v) list \<Rightarrow> 'k \<Rightarrow> 'v option" where
  "js_get m k = map_of m k"

fun js_set :: "('k \<times> 'v) list \<Rightarrow> 'k \<Rightarrow> 'v \<Rightarrow> ('k \<times> 'v) list" where
  "js_set [] k v = [(k, v)]"
| "js_set (p # m) k v = (if fst p = k then (k, v) # m else p # js_set m k v)"

fun js_keys :: "('k \<times> 'v) list \<Rightarrow> 'k list" where
  "js_keys [] = []"
| "js_keys (p # m) = fst p # filter (\<lambda>k. k \<noteq> fst p) (js_keys m)"

text \<open>
  \<^verbatim>\<open>v || 0\<close> on an optional number: \<^verbatim>\<open>undefined\<close> and \<^verbatim>\<open>0\<close> are falsy and give
  \<^verbatim>\<open>0\<close>, every other number is returned as it is.
\<close>

fun or_zero :: "real option \<Rightarrow> real" where
  "or_zero None = 0"
| "or_zero (Some v) = (if v \<noteq> 0 then v else 0)"

subsection \<open>Data model (\<^verbatim>\<open>types/pressure-report.ts\<close>)\<close>

text \<open>
  The fields \<^verbatim>\<open>x\<close> and \<^verbatim>\<open>y\<close> of a point, of a centroid and of a centre of pressure
  carry a prefix here, so that the three records stay apart.
\<close>

record CoPPoint =
  t_ms :: real
  pt_x :: real
  pt_y :: real
  sumW :: real
  sensors :: "(string \<times> real) list"

record ContactEvent =
  ev_stance_id :: int
  ev_foot :: string
  ic_ts_ms :: real
  to_ts_ms :: real
  ev_ct_s :: real
  peak_ts_ms :: real

text \<open>Of a \<^verbatim>\<open>StanceMetric\<close>, the fields the delivery view reads.\<close>

record StanceMetric =
  stance_id :: int
  foot :: string
  ct_s :: real
  phase :: string
  cop_trajectory :: "CoPPoint list"

record Centroid =
  cen_x :: real
  cen_y :: real

record CoP =
  cop_x :: real
  cop_y :: real
  force :: real

subsection \<open>\<^verbatim>\<open>findClosestPoint\<close>\<close>

text \<open>
  The series is an array (the test \<^verbatim>\<open>!data\<close> for a missing one has no case here), and
  \<^verbatim>\<open>closest || null\<close> turns the \<^verbatim>\<open>undefined\<close> of \<^verbatim>\<open>Array.prototype.find\<close> into
  \<^verbatim>\<open>null\<close>: both are \<open>None\<close>.
\<close>

definition findClosestPoint :: "CoPPoint list \<Rightarrow> real \<Rightarrow> CoPPoint option" where
  "findClosestPoint data time =
     (if length data = 0 then None
      else if time < t_ms (data ! 0) - 50 then None
      else if time > t_ms (data ! (length data - 1)) + 50 then None
      else List.find (\<lambda>p. \<bar>t_ms p - time\<bar> < 25) data)"

subsection \<open>\<^verbatim>\<open>calculateCoP\<close>\<close>

text \<open>
  One round of the \<^verbatim>\<open>forEach\<close> over \<^verbatim>\<open>Object.keys(sensors)\<close>, on the three
  accumulators \<^verbatim>\<open>totalWeightedX\<close>, \<^verbatim>\<open>totalWeightedY\<close>, \<^verbatim>\<open>totalForce\<close>.
  The parameter \<^verbatim>\<open>sensors\<close> is \<open>sensorVals\<close> here, \<open>sensors\<close> being the field of a point.
\<close>

definition cop_step ::
  "(string \<times> Centroid) list \<Rightarrow> (string \<times> real) list \<Rightarrow> string \<Rightarrow> real \<times> real \<times> real \<Rightarrow> real \<times> real \<times> real" where
  "cop_step sensorCentroids sensorVals sensorId acc =
     (case acc of (totalWeightedX, totalWeightedY, totalForce) \<Rightarrow>
        let val = or_zero (js_get sensorVals sensorId);
            centroid = js_get sensorCentroids sensorId
        in (case centroid of
              None \<Rightarrow> (totalWeightedX, totalWeightedY, totalForce)
            | Some c \<Rightarrow>
                if val > 0
                then (totalWeightedX + cen_x c * val, totalWeightedY + cen_y c * val, totalForce + val)
                else (totalWeightedX, totalWeightedY, totalForce)))"

definition cop_totals ::
  "(string \<times> Centroid) list \<Rightarrow> (string \<times> real) list \<Rightarrow> real \<times> real \<times> real" where
  "cop_totals sensorCentroids sensorVals =
     fold (cop_step sensorCentroids sensorVals) (js_keys sensorVals) (0, 0, 0)"

definition calculateCoP ::
  "(string \<times> Centroid) list \<Rightarrow> (string \<times> real) list \<Rightarrow> CoP option" where
  "calculateCoP sensorCentroids sensorVals =
     (case cop_totals sensorCentroids sensorVals of (totalWeightedX, totalWeightedY, totalForce) \<Rightarrow>
        if totalForce = 0 then None
        else Some \<lparr>cop_x = totalWeightedX / totalForce,
                   cop_y = totalWeightedY / totalForce,
                   force = totalForce\<rparr>)"

subsection \<open>\<^verbatim>\<open>DeliveryDetail\<close>: the synchronised timeline\<close>

text \<open>
  The input documents. The \<^verbatim>\<open>events\<close> of a ball are either one object with the
  lists \<^verbatim>\<open>Left\<close> and \<^verbatim>\<open>Right\<close> or an array of such objects; either list may be
  missing (\<^verbatim>\<open>e.Left || []\<close>).
\<close>

record EventSides =
  ev_Left :: "ContactEvent list option"
  ev_Right :: "ContactEvent list option"

datatype EventsPayload = EventsObject EventSides | EventsArray "EventSides list"

record BallEvents =
  be_ball_id :: int
  events :: EventsPayload

record StanceSides =
  sm_Left :: "StanceMetric list"
  sm_Right :: "StanceMetric list"

record BallStanceData =
  ball_id :: int
  stance_metrics :: StanceSides

record PhaseMarker =
  name :: string
  start :: real
  end_time :: real
  color :: string

record Timeline =
  leftData :: "CoPPoint list"
  rightData :: "CoPPoint list"
  phaseMarkers :: "PhaseMarker list"

fun or_empty :: "'a list option \<Rightarrow> 'a list" where
  "or_empty None = []"
| "or_empty (Some xs) = xs"

definition leftEvents :: "EventsPayload \<Rightarrow> ContactEvent list" where
  "leftEvents evs =
     (case evs of
        EventsArray es \<Rightarrow> concat (map (\<lambda>e. or_empty (ev_Left e)) es)
      | EventsObject e \<Rightarrow> or_empty (ev_Left e))"

definition rightEvents :: "EventsPayload \<Rightarrow> ContactEvent list" where
  "rightEvents evs =
     (case evs of
        EventsArray es \<Rightarrow> concat (map (\<lambda>e. or_empty (ev_Right e)) es)
      | EventsObject e \<Rightarrow> or_empty (ev_Right e))"

text \<open>Step 1: \<^verbatim>\<open>eventsMap.set(evt.stance_id, evt)\<close> for every event, left feed first.\<close>

definition buildEventsMap :: "ContactEvent list \<Rightarrow> (int \<times> ContactEvent) list" where
  "buildEventsMap evts =
     fold (\<lambda>evt eventsMap. js_set eventsMap (ev_stance_id evt) evt) evts []"

definition eventsMapOf :: "EventsPayload \<Rightarrow> (int \<times> ContactEvent) list" where
  "eventsMapOf evs = buildEventsMap (leftEvents evs @ rightEvents evs)"

text \<open>
  Step 2: \<^verbatim>\<open>minTime\<close> starts at \<^verbatim>\<open>Infinity\<close> (\<open>None\<close>), every event of the map
  lowers it, and \<^verbatim>\<open>Infinity\<close> at the end becomes \<^verbatim>\<open>0\<close>.
\<close>

fun minTime_step :: "ContactEvent \<Rightarrow> real option \<Rightarrow> real option" where
  "minTime_step evt None = Some (ic_ts_ms evt)"
| "minTime_step evt (Some minTime) =
     (if ic_ts_ms evt < minTime then Some (ic_ts_ms evt) else Some minTime)"

definition minTimeOf :: "(int \<times> ContactEvent) list \<Rightarrow> real" where
  "minTimeOf eventsMap =
     (case fold (\<lambda>entry. minTime_step (snd entry)) eventsMap None of
        None \<Rightarrow> 0
      | Some minTime \<Rightarrow> minTime)"

text \<open>
  Step 3: \<^verbatim>\<open>processFoot\<close>. \<open>shiftStance\<close> is the body of the outer \<^verbatim>\<open>forEach\<close>:
  the points one stance pushes. \<^verbatim>\<open>Array.prototype.sort\<close> is stable, and the
  comparator \<^verbatim>\<open>a.t_ms - b.t_ms\<close> orders by \<^verbatim>\<open>t_ms\<close>: the stable insertion sort
  \<^const>\<open>sort_key\<close>.
\<close>

definition shiftStance ::
  "(int \<times> ContactEvent) list \<Rightarrow> real \<Rightarrow> StanceMetric \<Rightarrow> CoPPoint list" where
  "shiftStance eventsMap minTime stance =
     (case js_get eventsMap (stance_id stance) of
        None \<Rightarrow> []
      | Some event \<Rightarrow>
          let offset = ic_ts_ms event - minTime
          in map (\<lambda>pt. pt\<lparr>t_ms := t_ms pt + offset\<rparr>) (cop_trajectory stance))"

fun allPoints :: "(int \<times> ContactEvent) list \<Rightarrow> real \<Rightarrow> StanceMetric list \<Rightarrow> CoPPoint list" where
  "allPoints eventsMap minTime [] = []"
| "allPoints eventsMap minTime (stance # stances) =
     shiftStance eventsMap minTime stance @ allPoints eventsMap minTime stances"

definition processFoot ::
  "(int \<times> ContactEvent) list \<Rightarrow> real \<Rightarrow> StanceMetric list \<Rightarrow> CoPPoint list" where
  "processFoot eventsMap minTime stances = sort_key t_ms (allPoints eventsMap minTime stances)"

text \<open>
  Step 4: the phase markers. \<^verbatim>\<open>Math.min\<close> and \<^verbatim>\<open>Math.max\<close> are called on the
  spread of a list the code has tested to be non-empty; on no argument they give
  \<^verbatim>\<open>Infinity\<close> and \<^verbatim>\<open>-Infinity\<close>, which the model leaves out. The two blocks of the
  source (\<^verbatim>\<open>BFC\<close>, \<^verbatim>\<open>FFC\<close>) differ in the phase name and the colour only and are one
  function here.
\<close>

fun Math_min :: "real list \<Rightarrow> real" where
  "Math_min (v # vs) = fold min vs v"

fun Math_max :: "real list \<Rightarrow> real" where
  "Math_max (v # vs) = fold max vs v"

definition startTimes ::
  "(int \<times> ContactEvent) list \<Rightarrow> real \<Rightarrow> StanceMetric list \<Rightarrow> real list" where
  "startTimes eventsMap minTime stances =
     map (\<lambda>s. or_zero (map_option ic_ts_ms (js_get eventsMap (stance_id s))) - minTime) stances"

definition endTimes ::
  "(int \<times> ContactEvent) list \<Rightarrow> real \<Rightarrow> StanceMetric list \<Rightarrow> real list" where
  "endTimes eventsMap minTime stances =
     map (\<lambda>s. or_zero (map_option to_ts_ms (js_get eventsMap (stance_id s))) - minTime) stances"

definition phaseStances :: "string \<Rightarrow> BallStanceData \<Rightarrow> StanceMetric list" where
  "phaseStances phaseName ballStanceData =
     filter (\<lambda>s. phase s = phaseName)
       (sm_Left (stance_metrics ballStanceData) @ sm_Right (stance_metrics ballStanceData))"

definition phaseMarker ::
  "string \<Rightarrow> string \<Rightarrow> (int \<times> ContactEvent) list \<Rightarrow> real \<Rightarrow> BallStanceData \<Rightarrow> PhaseMarker list" where
  "phaseMarker phaseName phaseColor eventsMap minTime ballStanceData =
     (let stances = phaseStances phaseName ballStanceData
      in if length stances > 0
         then [\<lparr>name = phaseName,
                 start = Math_min (startTimes eventsMap minTime stances),
                 end_time = Math_max (endTimes eventsMap minTime stances),
                 color = phaseColor\<rparr>]
         else [])"

text \<open>
  The memoised computation of \<^verbatim>\<open>leftData\<close>, \<^verbatim>\<open>rightData\<close> and \<^verbatim>\<open>phaseMarkers\<close>. Its
  two arguments are what \<^verbatim>\<open>balls.find\<close> returned for the \<^verbatim>\<open>ball_id\<close> of the delivery
  in the stance file and in the events file (\<open>None\<close> for \<^verbatim>\<open>undefined\<close>). \<open>globalZero\<close>
  is the \<^verbatim>\<open>minTime\<close> it computes.
\<close>

definition globalZero :: "BallEvents \<Rightarrow> real" where
  "globalZero ballEvents = minTimeOf (eventsMapOf (events ballEvents))"

definition syncTimeline :: "BallStanceData option \<Rightarrow> BallEvents option \<Rightarrow> Timeline" where
  "syncTimeline ballStanceDataOpt ballEventsOpt =
     (case (ballStanceDataOpt, ballEventsOpt) of
        (Some ballStanceData, Some ballEvents) \<Rightarrow>
          let eventsMap = eventsMapOf (events ballEvents);
              minTime = minTimeOf eventsMap;
              processedLeft = processFoot eventsMap minTime (sm_Left (stance_metrics ballStanceData));
              processedRight = processFoot eventsMap minTime (sm_Right (stance_metrics ballStanceData));
              markers = phaseMarker ''BFC'' ''#FF6B35'' eventsMap minTime ballStanceData
                      @ phaseMarker ''FFC'' ''#2196F3'' eventsMap minTime ballStanceData
          in \<lparr>leftData = processedLeft, rightData = processedRight, phaseMarkers = markers\<rparr>
      | _ \<Rightarrow> \<lparr>leftData = [], rightData = [], phaseMarkers = []\<rparr>)"

subsection \<open>Region sums\<close>

text \<open>
  \<^verbatim>\<open>SENSOR_REGIONS\<close> and the sum
  \<^verbatim>\<open>sensors.reduce((acc, sensor) => acc + (point.sensors[sensor] || 0), 0)\<close> of the
  heat map.
\<close>

definition SENSOR_REGIONS :: "(string \<times> string list) list" where
  "SENSOR_REGIONS =
     [(''ForeFoot'', [''S1'', ''S2'']),
      (''UpperMid'', [''S3'', ''S4'', ''S5'']),
      (''LowerMid'', [''S6'']),
      (''Heel'', [''S7'', ''S8''])]"

definition regionSum :: "string list \<Rightarrow> CoPPoint \<Rightarrow> real" where
  "regionSum regionSensors point =
     fold (\<lambda>sensor acc. acc + or_zero (js_get (sensors point) sensor)) regionSensors 0"

definition regionValues :: "CoPPoint \<Rightarrow> (string \<times> real) list" where
  "regionValues point =
     fold (\<lambda>entry regionValues. js_set regionValues (fst entry) (regionSum (snd entry) point))
       SENSOR_REGIONS []"

text \<open>
  \<^verbatim>\<open>RegionalPressureTimeline\<close> writes the sums out channel by channel, on the point
  \<^verbatim>\<open>find\<close> returned for a time (\<^verbatim>\<open>undefined\<close> when the foot has no sample there):
  \<^verbatim>\<open>leftPoint?.sensors?.S1 || 0\<close>.
\<close>

definition chan :: "CoPPoint option \<Rightarrow> string \<Rightarrow> real" where
  "chan point sensor =
     or_zero (case point of None \<Rightarrow> None | Some p \<Rightarrow> js_get (sensors p) sensor)"

definition ForeFoot_value :: "CoPPoint option \<Rightarrow> real" where
  "ForeFoot_value point = chan point ''S1'' + chan point ''S2''"

definition UpperMid_value :: "CoPPoint option \<Rightarrow> real" where
  "UpperMid_value point = chan point ''S3'' + chan point ''S4'' + chan point ''S5''"

definition LowerMid_value :: "CoPPoint option \<Rightarrow> real" where
  "LowerMid_value point = chan point ''S6''"

definition Heel_value :: "CoPPoint option \<Rightarrow> real" where
  "Heel_value point = chan point ''S7'' + chan point ''S8''"

record RegionRow =
  row_time :: real
  row_Left :: real
  row_Right :: real

definition sortedTimes :: "CoPPoint list \<Rightarrow> CoPPoint list \<Rightarrow> real list" where
  "sortedTimes leftFootData rightFootData =
     sort (rev (remdups (rev (map t_ms leftFootData @ map t_ms rightFootData))))"

definition regionRows ::
  "(CoPPoint option \<Rightarrow> real) \<Rightarrow> CoPPoint list \<Rightarrow> CoPPoint list \<Rightarrow> RegionRow list" where
  "regionRows regionValue leftFootData rightFootData =
     map (\<lambda>t. \<lparr>row_time = t,
                row_Left = regionValue (List.find (\<lambda>p. t_ms p = t) leftFootData),
                row_Right = regionValue (List.find (\<lambda>p. t_ms p = t) rightFootData)\<rparr>)
       (sortedTimes leftFootData rightFootData)"

subsection \<open>Playback state of \<^verbatim>\<open>PressureHeatmapSVG\<close>\<close>

definition maxTime :: "CoPPoint list \<Rightarrow> CoPPoint list \<Rightarrow> real" where
  "maxTime leftFootData rightFootData =
     (let max0 = 0;
          max1 = (if leftFootData \<noteq> [] \<and> t_ms (last leftFootData) > max0
                  then t_ms (last leftFootData) else max0);
          max2 = (if rightFootData \<noteq> [] \<and> t_ms (last rightFootData) > max1
                  then t_ms (last rightFootData) else max1)
      in if max2 > 0 then max2 else 2000)"

record Playback =
  currentTime :: real
  isPlaying :: bool
  playbackSpeed :: real

text \<open>
  The \<^verbatim>\<open>onChange\<close> handler of the range input (\<^verbatim>\<open>min="0"\<close>, \<^verbatim>\<open>max={maxTime}\<close>,
  \<^verbatim>\<open>step="10"\<close>): \<^verbatim>\<open>setIsPlaying(false); setCurrentTime(parseInt(e.target.value))\<close>.
  The input reports a decimal integer string, whose value is the argument here.
\<close>

definition scrub :: "int \<Rightarrow> Playback \<Rightarrow> Playback" where
  "scrub val st = st\<lparr>isPlaying := False, currentTime := of_int val\<rparr>"

definition playPause :: "Playback \<Rightarrow> Playback" where
  "playPause st = st\<lparr>isPlaying := \<not> isPlaying st\<rparr>"

definition reset :: "Playback \<Rightarrow> Playback" where
  "reset st = st\<lparr>isPlaying := False, currentTime := 0\<rparr>"

definition setSpeed :: "real \<Rightarrow> Playback \<Rightarrow> Playback" where
  "setSpeed speed st = st\<lparr>playbackSpeed := speed\<rparr>"

text \<open>
  The state update of one run of the \<^verbatim>\<open>animate\<close> callback, \<^verbatim>\<open>deltaTime\<close> after the
  previous one. The callback does not read \<^verbatim>\<open>isPlaying\<close>; when it runs is decided by
  \<^verbatim>\<open>requestAnimationFrame\<close> and by the \<^verbatim>\<open>cancelAnimationFrame\<close> of the effect, which
  belong to the host and have no definition here.
\<close>

definition animate :: "real \<Rightarrow> real \<Rightarrow> Playback \<Rightarrow> Playback" where
  "animate maxT deltaTime st =
     (let nextTime = currentTime st + deltaTime * playbackSpeed st
      in if nextTime \<ge> maxT then st\<lparr>isPlaying := False, currentTime := 0\<rparr>
         else st\<lparr>currentTime := nextTime\<rparr>)"

text \<open>The specification's \<open>clamp(t, 0, maxTime)\<close>, to compare the cursor with.\<close>

definition spec_clamp :: "real \<Rightarrow> real \<Rightarrow> real \<Rightarrow> real" where
  "spec_clamp t lo hi = max lo (min hi t)"

section \<open>Notions used in the statements\<close>

text \<open>
  The magnitude \<^verbatim>\<open>calculateCoP\<close> reads for a channel (\<^verbatim>\<open>sensors[sensorId] || 0\<close>), its
  test \<^verbatim>\<open>val > 0 && centroid\<close>, and the channels of a sample that pass the test.
\<close>

definition magnitude :: "(string \<times> real) list \<Rightarrow> string \<Rightarrow> real" where
  "magnitude sensorVals sensorId = or_zero (js_get sensorVals sensorId)"

definition contributes :: "(string \<times> Centroid) list \<Rightarrow> (string \<times> real) list \<Rightarrow> string \<Rightarrow> bool" where
  "contributes sensorCentroids sensorVals sensorId =
     (magnitude sensorVals sensorId > 0 \<and> js_get sensorCentroids sensorId \<noteq> None)"

definition activeChannels :: "(string \<times> Centroid) list \<Rightarrow> (string \<times> real) list \<Rightarrow> string list" where
  "activeChannels cs sv = filter (contributes cs sv) (js_keys sv)"

text \<open>
  The global zero as the specification words it: the minimum \<^verbatim>\<open>initial_contact\<close> over
  the events that a stance of the delivery refers to, and 0 when there is none.
\<close>

definition spec_referencedEvents :: "BallStanceData \<Rightarrow> BallEvents \<Rightarrow> ContactEvent list" where
  "spec_referencedEvents bsd be =
     List.map_filter (\<lambda>s. js_get (eventsMapOf (events be)) (stance_id s))
       (sm_Left (stance_metrics bsd) @ sm_Right (stance_metrics bsd))"

definition spec_globalZero :: "BallStanceData \<Rightarrow> BallEvents \<Rightarrow> real" where
  "spec_globalZero bsd be =
     (case spec_referencedEvents bsd be of
        [] \<Rightarrow> 0
      | e # es \<Rightarrow> Math_min (map ic_ts_ms (e # es)))"

text \<open>
  The bounds of a phase marker as the specification words them: the minimum of
  \<open>initial_contact - globalZero\<close> and the maximum of \<open>take_off - globalZero\<close> over the
  events of the stances tagged with the phase.
\<close>

definition spec_markerStart :: "string \<Rightarrow> BallStanceData \<Rightarrow> BallEvents \<Rightarrow> real" where
  "spec_markerStart phaseName bsd be =
     Math_min (map (\<lambda>e. ic_ts_ms e - globalZero be)
       (List.map_filter (\<lambda>s. js_get (eventsMapOf (events be)) (stance_id s)) (phaseStances phaseName bsd)))"

definition spec_markerEnd :: "string \<Rightarrow> BallStanceData \<Rightarrow> BallEvents \<Rightarrow> real" where
  "spec_markerEnd phaseName bsd be =
     Math_max (map (\<lambda>e. to_ts_ms e - globalZero be)
       (List.map_filter (\<lambda>s. js_get (eventsMapOf (events be)) (stance_id s)) (phaseStances phaseName bsd)))"

section \<open>Example data\<close>

definition c3_centroids :: "(string \<times> Centroid) list" where
  "c3_centroids = [(''S1'', \<lparr>cen_x = 0, cen_y = 0\<rparr>), (''S2'', \<lparr>cen_x = 10, cen_y = 0\<rparr>)]"

definition c3_sensors :: "(string \<times> real) list" where
  "c3_sensors = [(''S1'', 10), (''S2'', 30)]"

definition c3_zero :: "(string \<times> real) list" where
  "c3_zero = [(''S1'', 0), (''S2'', 0)]"

definition c3_no_centroid :: "(string \<times> Centroid) list" where
  "c3_no_centroid = [(''S9'', \<lparr>cen_x = 1, cen_y = 1\<rparr>)]"

definition c10_sensors :: "(string \<times> real) list" where
  "c10_sensors = [(''S1'', 10), (''S2'', 30), (''S3'', - 5), (''S4'', 0), (''S7'', 20)]"

definition sample_at :: "real \<Rightarrow> CoPPoint" where
  "sample_at t = \<lparr>t_ms = t, pt_x = 0, pt_y = 0, sumW = 0, sensors = []\<rparr>"

definition c4_series :: "CoPPoint list" where
  "c4_series = [sample_at 0, sample_at 100, sample_at 200]"

definition mk_event :: "int \<Rightarrow> string \<Rightarrow> real \<Rightarrow> real \<Rightarrow> ContactEvent" where
  "mk_event i f ic to =
     \<lparr>ev_stance_id = i, ev_foot = f, ic_ts_ms = ic, to_ts_ms = to, ev_ct_s = (to - ic) / 1000, peak_ts_ms = ic\<rparr>"

definition mk_stance :: "int \<Rightarrow> string \<Rightarrow> string \<Rightarrow> CoPPoint list \<Rightarrow> StanceMetric" where
  "mk_stance i f ph pts = \<lparr>stance_id = i, foot = f, ct_s = 0, phase = ph, cop_trajectory = pts\<rparr>"

definition mk_events :: "ContactEvent list \<Rightarrow> ContactEvent list \<Rightarrow> BallEvents" where
  "mk_events l r = \<lparr>be_ball_id = 1, events = EventsObject \<lparr>ev_Left = Some l, ev_Right = Some r\<rparr>\<rparr>"

definition mk_ball :: "StanceMetric list \<Rightarrow> StanceMetric list \<Rightarrow> BallStanceData" where
  "mk_ball l r = \<lparr>ball_id = 1, stance_metrics = \<lparr>sm_Left = l, sm_Right = r\<rparr>\<rparr>"

definition tagged_at :: "real \<Rightarrow> real \<Rightarrow> CoPPoint" where
  "tagged_at tag t = \<lparr>t_ms = t, pt_x = tag, pt_y = 0, sumW = 0, sensors = []\<rparr>"

definition c2_events :: BallEvents where
  "c2_events = mk_events [mk_event 1 ''Left'' 1200 1300, mk_event 2 ''Left'' 1000 1100] []"

definition c2_ball :: BallStanceData where
  "c2_ball = mk_ball
     [mk_stance 1 ''Left'' ''FFC'' [tagged_at 1 0, tagged_at 1 5, tagged_at 1 10],
      mk_stance 2 ''Left'' ''BFC'' [tagged_at 2 0, tagged_at 2 200, tagged_at 2 205]] []"

definition c6_events :: BallEvents where
  "c6_events = mk_events [mk_event 1 ''Left'' 1000 1100] [mk_event 2 ''Right'' 1050 1150]"

definition c6_orphan :: StanceMetric where
  "c6_orphan = mk_stance 7 ''Left'' ''BFC'' [sample_at 0, sample_at 5]"

definition c6_first :: StanceMetric where
  "c6_first = mk_stance 1 ''Left'' ''RUNUP'' [sample_at 0, sample_at 5]"

definition c6_second :: StanceMetric where
  "c6_second = mk_stance 2 ''Right'' ''FFC'' [sample_at 0, sample_at 5]"

definition c7_events :: BallEvents where
  "c7_events = mk_events [mk_event 1 ''Left'' 1200 1300] [mk_event 2 ''Right'' 1000 1100]"

definition c7_ball :: BallStanceData where
  "c7_ball = mk_ball [mk_stance 1 ''Left'' ''FFC'' [sample_at 0, sample_at 5, sample_at 10]]
                     [mk_stance 2 ''Right'' ''BFC'' [sample_at 0]]"

definition c1_events :: BallEvents where
  "c1_events = mk_events [mk_event 1 ''Left'' 1000 1100] [mk_event 2 ''Right'' 500 600]"

definition c1_ball :: BallStanceData where
  "c1_ball = mk_ball [mk_stance 1 ''Left'' ''FFC'' [sample_at 0]] []"

definition c5_events :: BallEvents where
  "c5_events = mk_events [mk_event 0 ''Left'' 1000 1040, mk_event 1 ''Left'' 1050 1090]
                         [mk_event 2 ''Right'' 1070 1110]"

definition c5_ball :: BallStanceData where
  "c5_ball = mk_ball [mk_stance 0 ''Left'' ''RUNUP'' [], mk_stance 1 ''Left'' ''FFC'' []]
                     [mk_stance 2 ''Right'' ''FFC'' []]"

definition c5_ball_orphan :: BallStanceData where
  "c5_ball_orphan = mk_ball [mk_stance 0 ''Left'' ''RUNUP'' [], mk_stance 1 ''Left'' ''FFC'' []]
                            [mk_stance 9 ''Right'' ''FFC'' [sample_at 0, sample_at 5]]"

definition c8_point :: CoPPoint where
  "c8_point = \<lparr>t_ms = 0, pt_x = 0, pt_y = 0, sumW = 21,
                 sensors = [(''S1'', 1), (''S2'', 2), (''S3'', 3), (''S4'', 0), (''S7'', 7), (''S8'', 8)]\<rparr>"

definition c9_playing :: Playback where
  "c9_playing = \<lparr>currentTime = 400, isPlaying = True, playbackSpeed = 1\<rparr>"

section \<open>Auxiliary facts\<close>

subsection \<open>Centre of pressure\<close>

lemma or_zero_Some: "or_zero (Some v) = v"
  by simp

lemma cop_step_fold:
  "fold (cop_step cs sv) ks (a, b, c) =
     (a + (\<Sum>k\<leftarrow>filter (contributes cs sv) ks. cen_x (the (js_get cs k)) * magnitude sv k),
      b + (\<Sum>k\<leftarrow>filter (contributes cs sv) ks. cen_y (the (js_get cs k)) * magnitude sv k),
      c + (\<Sum>k\<leftarrow>filter (contributes cs sv) ks. magnitude sv k))"
proof (induction ks arbitrary: a b c)
  case Nil
  show ?case by simp
next
  case (Cons k ks)
  show ?case
  proof (cases "contributes cs sv k")
    case True
    then obtain c where c: "js_get cs k = Some c" and pos: "0 < or_zero (js_get sv k)"
      by (auto simp: contributes_def magnitude_def)
    have "cop_step cs sv k (a, b, c') = (a + cen_x c * magnitude sv k, b + cen_y c * magnitude sv k, c' + magnitude sv k)" for c'
      using c pos by (simp add: cop_step_def magnitude_def Let_def)
    then show ?thesis using True c by (simp add: Cons.IH add.assoc)
  next
    case False
    then have "cop_step cs sv k (a, b, c') = (a, b, c')" for c'
      by (cases "js_get cs k") (auto simp: cop_step_def contributes_def magnitude_def Let_def)
    then show ?thesis using False by (simp add: Cons.IH)
  qed
qed

lemma cop_totals_sums:
  "cop_totals cs sv =
     ((\<Sum>k\<leftarrow>activeChannels cs sv. cen_x (the (js_get cs k)) * magnitude sv k),
      (\<Sum>k\<leftarrow>activeChannels cs sv. cen_y (the (js_get cs k)) * magnitude sv k),
      (\<Sum>k\<leftarrow>activeChannels cs sv. magnitude sv k))"
  by (simp add: cop_totals_def cop_step_fold activeChannels_def)

lemma active_sum_pos:
  "ks \<noteq> [] \<Longrightarrow> \<forall>k\<in>set ks. 0 < magnitude sv k \<Longrightarrow> 0 < (\<Sum>k\<leftarrow>ks. magnitude sv k)"
proof (induction ks)
  case Nil
  then show ?case by simp
next
  case (Cons k ks)
  have "0 \<le> (\<Sum>k\<leftarrow>ks. magnitude sv k)"
    using Cons.prems(2) by (intro sum_list_nonneg) (auto simp: less_imp_le)
  moreover have "0 < magnitude sv k" using Cons.prems(2) by simp
  ultimately show ?case by simp
qed

lemma totalForce_pos_iff:
  "0 < (\<Sum>k\<leftarrow>activeChannels cs sv. magnitude sv k) \<longleftrightarrow> activeChannels cs sv \<noteq> []"
proof
  assume "0 < (\<Sum>k\<leftarrow>activeChannels cs sv. magnitude sv k)"
  then show "activeChannels cs sv \<noteq> []" by auto
next
  assume "activeChannels cs sv \<noteq> []"
  moreover have "\<forall>k\<in>set (activeChannels cs sv). 0 < magnitude sv k"
    by (simp add: activeChannels_def contributes_def)
  ultimately show "0 < (\<Sum>k\<leftarrow>activeChannels cs sv. magnitude sv k)"
    by (rule active_sum_pos)
qed

lemma totalForce_zero_iff:
  "(\<Sum>k\<leftarrow>activeChannels cs sv. magnitude sv k) = 0 \<longleftrightarrow> activeChannels cs sv = []"
  using totalForce_pos_iff [where cs=cs and sv=sv] by (cases "activeChannels cs sv = []") auto

lemma set_js_keys: "set (js_keys m) = fst ` set m"
  by (induction m) auto

lemma distinct_js_keys: "distinct (js_keys m)"
  by (induction m) auto

lemma c3_example: "calculateCoP c3_centroids c3_sensors = Some \<lparr>cop_x = 7.5, cop_y = 0, force = 40\<rparr>"
  by (simp add: calculateCoP_def cop_totals_def cop_step_def js_get_def c3_centroids_def c3_sensors_def)

lemma calculateCoP_sums:
  "calculateCoP cs sv =
     (if (\<Sum>k\<leftarrow>activeChannels cs sv. magnitude sv k) = 0 then None
      else Some \<lparr>cop_x = (\<Sum>k\<leftarrow>activeChannels cs sv. cen_x (the (js_get cs k)) * magnitude sv k)
                          / (\<Sum>k\<leftarrow>activeChannels cs sv. magnitude sv k),
                 cop_y = (\<Sum>k\<leftarrow>activeChannels cs sv. cen_y (the (js_get cs k)) * magnitude sv k)
                          / (\<Sum>k\<leftarrow>activeChannels cs sv. magnitude sv k),
                 force = (\<Sum>k\<leftarrow>activeChannels cs sv. magnitude sv k)\<rparr>)"
  by (simp add: calculateCoP_def cop_totals_sums)

lemma calculateCoP_None_iff: "calculateCoP cs sv = None \<longleftrightarrow> activeChannels cs sv = []"
  by (simp add: calculateCoP_sums totalForce_zero_iff)

subsection \<open>Closest sample\<close>

lemma findClosestPoint_inside:
  assumes "data \<noteq> []" "t_ms (hd data) - 50 \<le> time" "time \<le> t_ms (last data) + 50"
  shows "findClosestPoint data time = List.find (\<lambda>p. \<bar>t_ms p - time\<bar> < 25) data"
  using assms by (simp add: findClosestPoint_def hd_conv_nth last_conv_nth)

lemma findClosestPoint_outside:
  assumes "data \<noteq> []" "time < t_ms (hd data) - 50 \<or> time > t_ms (last data) + 50"
  shows "findClosestPoint data time = None"
  using assms by (auto simp: findClosestPoint_def hd_conv_nth last_conv_nth)

subsection \<open>Alignment\<close>

lemma allPoints_concat: "allPoints em mt stances = concat (map (shiftStance em mt) stances)"
  by (induction stances) simp_all

lemma allPoints_append: "allPoints em mt (xs @ ys) = allPoints em mt xs @ allPoints em mt ys"
  by (simp add: allPoints_concat)

lemma syncTimeline_leftData:
  "leftData (syncTimeline (Some bsd) (Some be)) =
     processFoot (eventsMapOf (events be)) (globalZero be) (sm_Left (stance_metrics bsd))"
  by (simp add: syncTimeline_def globalZero_def Let_def)

lemma syncTimeline_rightData:
  "rightData (syncTimeline (Some bsd) (Some be)) =
     processFoot (eventsMapOf (events be)) (globalZero be) (sm_Right (stance_metrics bsd))"
  by (simp add: syncTimeline_def globalZero_def Let_def)

lemma syncTimeline_absent:
  "bsdo = None \<or> beo = None \<Longrightarrow> syncTimeline bsdo beo = \<lparr>leftData = [], rightData = [], phaseMarkers = []\<rparr>"
  by (auto simp: syncTimeline_def split: option.splits)

lemma processFoot_sorted: "sorted (map t_ms (processFoot em mt stances))"
  by (simp add: processFoot_def)

lemma processFoot_stable:
  "filter (\<lambda>p. t_ms p = t) (processFoot em mt stances) =
     filter (\<lambda>p. t_ms p = t) (concat (map (shiftStance em mt) stances))"
  by (simp add: processFoot_def sort_key_stable allPoints_concat)

lemma syncTimeline_sorted:
  "sorted (map t_ms (leftData (syncTimeline bsdo beo)))"
  "sorted (map t_ms (rightData (syncTimeline bsdo beo)))"
  by (cases bsdo; cases beo; simp add: syncTimeline_leftData syncTimeline_rightData processFoot_sorted syncTimeline_absent)+

lemma c2_eventsMap: "eventsMapOf (events c2_events) = [(1, mk_event 1 ''Left'' 1200 1300), (2, mk_event 2 ''Left'' 1000 1100)]"
  by (simp add: eventsMapOf_def buildEventsMap_def leftEvents_def rightEvents_def c2_events_def mk_events_def mk_event_def)

lemma c2_globalZero: "globalZero c2_events = 1000"
  by (simp add: globalZero_def c2_eventsMap minTimeOf_def mk_event_def)

lemma c2_leftData:
  "leftData (syncTimeline (Some c2_ball) (Some c2_events)) =
     [tagged_at 2 0, tagged_at 1 200, tagged_at 2 200, tagged_at 1 205, tagged_at 2 205, tagged_at 1 210]"
  by (simp add: syncTimeline_leftData c2_globalZero c2_eventsMap processFoot_def shiftStance_def js_get_def
      c2_ball_def mk_ball_def mk_stance_def mk_event_def tagged_at_def)

lemma shiftStance_missing: "js_get em (stance_id s) = None \<Longrightarrow> shiftStance em mt s = []"
  by (simp add: shiftStance_def)

lemma shiftStance_present:
  "js_get em (stance_id s) = Some e \<Longrightarrow>
     shiftStance em mt s = map (\<lambda>pt. pt\<lparr>t_ms := t_ms pt + (ic_ts_ms e - mt)\<rparr>) (cop_trajectory s)"
  by (simp add: shiftStance_def)

lemma processFoot_drop_missing:
  "js_get em (stance_id s) = None \<Longrightarrow> processFoot em mt (xs @ s # ys) = processFoot em mt (xs @ ys)"
  by (simp add: processFoot_def allPoints_append shiftStance_missing)

lemma c6_eventsMap:
  "eventsMapOf (events c6_events) = [(1, mk_event 1 ''Left'' 1000 1100), (2, mk_event 2 ''Right'' 1050 1150)]"
  by (simp add: eventsMapOf_def buildEventsMap_def leftEvents_def rightEvents_def c6_events_def mk_events_def mk_event_def)

lemma set_processFoot:
  "set (processFoot em mt stances) = (\<Union>s\<in>set stances. set (shiftStance em mt s))"
  by (simp add: processFoot_def allPoints_concat)

lemma length_processFoot:
  "length (processFoot em mt stances) = (\<Sum>s\<leftarrow>stances. length (shiftStance em mt s))"
  by (simp add: processFoot_def allPoints_concat length_concat comp_def)

lemma c7_eventsMap:
  "eventsMapOf (events c7_events) = [(1, mk_event 1 ''Left'' 1200 1300), (2, mk_event 2 ''Right'' 1000 1100)]"
  by (simp add: eventsMapOf_def buildEventsMap_def leftEvents_def rightEvents_def c7_events_def mk_events_def mk_event_def)

lemma c7_globalZero: "globalZero c7_events = 1000"
  by (simp add: globalZero_def c7_eventsMap minTimeOf_def mk_event_def)

lemma c7_leftData:
  "leftData (syncTimeline (Some c7_ball) (Some c7_events)) = [sample_at 200, sample_at 205, sample_at 210]"
  by (simp add: syncTimeline_leftData c7_globalZero c7_eventsMap processFoot_def shiftStance_def js_get_def
      c7_ball_def mk_ball_def mk_stance_def mk_event_def sample_at_def)

subsection \<open>Event index and global zero\<close>

lemma map_of_js_set: "map_of (js_set m k v) = (map_of m)(k \<mapsto> v)"
  by (induction m) (auto simp: fun_eq_iff)

lemma fst_set_js_set: "fst ` set (js_set m k v) = insert k (fst ` set m)"
  by (induction m) auto

lemma distinct_js_set: "distinct (map fst m) \<Longrightarrow> distinct (map fst (js_set m k v))"
  by (induction m) (auto simp: fst_set_js_set)

lemma js_set_not_Nil: "js_set m k v \<noteq> []"
  by (cases m) auto

lemma fold_js_set_distinct:
  "distinct (map fst m) \<Longrightarrow>
     distinct (map fst (fold (\<lambda>evt eventsMap. js_set eventsMap (ev_stance_id evt) evt) evts m))"
  by (induction evts arbitrary: m) (auto simp: distinct_js_set)

lemma fold_js_set_not_Nil:
  "evts \<noteq> [] \<or> m \<noteq> [] \<Longrightarrow> fold (\<lambda>evt eventsMap. js_set eventsMap (ev_stance_id evt) evt) evts m \<noteq> []"
  by (induction evts arbitrary: m) (auto simp: js_set_not_Nil)

lemma find_append_case:
  "List.find P (xs @ ys) = (case List.find P xs of None \<Rightarrow> List.find P ys | Some x \<Rightarrow> Some x)"
  by (induction xs) auto

lemma fold_js_set_lookup:
  "map_of (fold (\<lambda>evt eventsMap. js_set eventsMap (ev_stance_id evt) evt) evts m) k =
     (case List.find (\<lambda>e. ev_stance_id e = k) (rev evts) of None \<Rightarrow> map_of m k | Some e \<Rightarrow> Some e)"
proof (induction evts arbitrary: m)
  case Nil
  show ?case by simp
next
  case (Cons evt evts)
  show ?case
    by (auto simp: Cons.IH map_of_js_set find_append_case split: option.splits)
qed

lemma buildEventsMap_distinct: "distinct (map fst (buildEventsMap evts))"
  unfolding buildEventsMap_def by (rule fold_js_set_distinct) simp

lemma buildEventsMap_Nil_iff: "buildEventsMap evts = [] \<longleftrightarrow> evts = []"
  using fold_js_set_not_Nil [of evts "[]"] by (auto simp: buildEventsMap_def)

lemma buildEventsMap_lookup:
  "js_get (buildEventsMap evts) k = List.find (\<lambda>e. ev_stance_id e = k) (rev evts)"
  by (simp add: js_get_def buildEventsMap_def fold_js_set_lookup split: option.splits)

lemma minTime_fold:
  "m \<noteq> [] \<Longrightarrow>
     fold (\<lambda>entry. minTime_step (snd entry)) m acc =
       Some (Min ((ic_ts_ms \<circ> snd) ` set m \<union> set_option acc))"
proof (induction m arbitrary: acc)
  case Nil
  then show ?case by simp
next
  case (Cons p m)
  show ?case
  proof (cases "m = []")
    case True
    then show ?thesis by (cases acc) (auto simp: min_def)
  next
    case False
    have "fold (\<lambda>entry. minTime_step (snd entry)) (p # m) acc =
            Some (Min ((ic_ts_ms \<circ> snd) ` set m \<union> set_option (minTime_step (snd p) acc)))"
      using Cons.IH [OF False] by simp
    also have "Min ((ic_ts_ms \<circ> snd) ` set m \<union> set_option (minTime_step (snd p) acc)) =
                 Min ((ic_ts_ms \<circ> snd) ` set (p # m) \<union> set_option acc)"
    proof (cases acc)
      case None
      then show ?thesis by (simp add: insert_commute)
    next
      case (Some a)
      define S where "S = (ic_ts_ms \<circ> snd) ` set m"
      define M where "M = Min S"
      have ne: "S \<noteq> {}" and fin: "finite S" using False by (simp_all add: S_def)
      have m1: "Min (insert v S) = min v M" for v
        using ne fin by (simp add: M_def)
      have m2: "Min (insert v (insert w S)) = min v (min w M)" for v w
        using ne fin by (simp add: M_def)
      have lhs: "S \<union> set_option (minTime_step (snd p) acc) =
                   insert (if ic_ts_ms (snd p) < a then ic_ts_ms (snd p) else a) S"
        using Some by simp
      have rhs: "(ic_ts_ms \<circ> snd) ` set (p # m) \<union> set_option acc = insert (ic_ts_ms (snd p)) (insert a S)"
        using Some by (auto simp: S_def)
      show ?thesis
        unfolding S_def [symmetric] lhs rhs m1 m2 by (simp add: min_def)
    qed
    finally show ?thesis .
  qed
qed

lemma minTimeOf_Min:
  "minTimeOf m = (if m = [] then 0 else Min ((ic_ts_ms \<circ> snd) ` set m))"
  by (simp add: minTimeOf_def minTime_fold)

lemma index_values:
  "distinct (map fst m) \<Longrightarrow> snd ` set m = {e. \<exists>k. js_get m k = Some e}"
  by (force simp: js_get_def dest: map_of_SomeD)

lemma eventsMapOf_values:
  "snd ` set (eventsMapOf evs) = {e. \<exists>k. js_get (eventsMapOf evs) k = Some e}"
  unfolding eventsMapOf_def by (rule index_values) (rule buildEventsMap_distinct)

lemma globalZero_Min:
  "globalZero be =
     (if leftEvents (events be) @ rightEvents (events be) = [] then 0
      else Min (ic_ts_ms ` {e. \<exists>k. js_get (eventsMapOf (events be)) k = Some e}))"
proof -
  have "(ic_ts_ms \<circ> snd) ` set (eventsMapOf (events be)) =
          ic_ts_ms ` {e. \<exists>k. js_get (eventsMapOf (events be)) k = Some e}"
    unfolding eventsMapOf_values [symmetric] by (simp add: image_image)
  moreover have "eventsMapOf (events be) = [] \<longleftrightarrow> leftEvents (events be) @ rightEvents (events be) = []"
    by (simp only: eventsMapOf_def buildEventsMap_Nil_iff)
  ultimately show ?thesis
    by (simp only: globalZero_def minTimeOf_Min)
qed

lemma Math_min_Min: "Math_min (v # vs) = Min (set (v # vs))"
  by (simp only: Math_min.simps Min.set_eq_fold)

lemma Math_max_Max: "Math_max (v # vs) = Max (set (v # vs))"
  by (simp only: Math_max.simps Max.set_eq_fold)

lemma set_map_filter_conv: "set (List.map_filter f xs) = {y. \<exists>x\<in>set xs. f x = Some y}"
  by (induction xs) (auto split: option.splits)

lemma set_spec_referencedEvents:
  "set (spec_referencedEvents bsd be) =
     {e. \<exists>s\<in>set (sm_Left (stance_metrics bsd) @ sm_Right (stance_metrics bsd)).
           js_get (eventsMapOf (events be)) (stance_id s) = Some e}"
  by (simp add: spec_referencedEvents_def set_map_filter_conv)

lemma spec_globalZero_Min:
  "spec_globalZero bsd be =
     (if spec_referencedEvents bsd be = [] then 0
      else Min (ic_ts_ms ` set (spec_referencedEvents bsd be)))"
proof (cases "spec_referencedEvents bsd be")
  case Nil
  then show ?thesis by (simp add: spec_globalZero_def)
next
  case (Cons e es)
  have "spec_globalZero bsd be = Math_min (map ic_ts_ms (e # es))"
    by (simp add: spec_globalZero_def Cons)
  also have "\<dots> = Min (set (map ic_ts_ms (e # es)))"
    unfolding list.map by (rule Math_min_Min)
  finally show ?thesis by (simp add: Cons)
qed

lemma globalZero_all_referenced:
  assumes "\<forall>k e. js_get (eventsMapOf (events be)) k = Some e \<longrightarrow>
             k \<in> stance_id ` set (sm_Left (stance_metrics bsd) @ sm_Right (stance_metrics bsd))"
  shows "globalZero be = spec_globalZero bsd be"
proof -
  have eq: "set (spec_referencedEvents bsd be) = {e. \<exists>k. js_get (eventsMapOf (events be)) k = Some e}"
    unfolding set_spec_referencedEvents using assms by force
  have "spec_referencedEvents bsd be = [] \<longleftrightarrow> eventsMapOf (events be) = []"
  proof -
    have "spec_referencedEvents bsd be = [] \<longleftrightarrow> set (spec_referencedEvents bsd be) = {}" by simp
    also have "\<dots> \<longleftrightarrow> snd ` set (eventsMapOf (events be)) = {}"
      by (simp only: eq eventsMapOf_values)
    also have "\<dots> \<longleftrightarrow> eventsMapOf (events be) = []" by simp
    finally show ?thesis .
  qed
  moreover have "eventsMapOf (events be) = [] \<longleftrightarrow> leftEvents (events be) @ rightEvents (events be) = []"
    by (simp only: eventsMapOf_def buildEventsMap_Nil_iff)
  ultimately show ?thesis
    by (simp only: globalZero_Min spec_globalZero_Min eq)
qed

subsection \<open>Phase markers\<close>

lemma syncTimeline_phaseMarkers:
  "phaseMarkers (syncTimeline (Some bsd) (Some be)) =
     phaseMarker ''BFC'' ''#FF6B35'' (eventsMapOf (events be)) (globalZero be) bsd
     @ phaseMarker ''FFC'' ''#2196F3'' (eventsMapOf (events be)) (globalZero be) bsd"
  by (simp add: syncTimeline_def globalZero_def Let_def)

lemma Math_min_map: "xs \<noteq> [] \<Longrightarrow> Math_min (map f xs) = Min (f ` set xs)"
  by (cases xs) (simp_all only: list.map Math_min_Min set_map [symmetric], simp)

lemma Math_max_map: "xs \<noteq> [] \<Longrightarrow> Math_max (map f xs) = Max (f ` set xs)"
  by (cases xs) (simp_all only: list.map Math_max_Max set_map [symmetric], simp)

lemma or_zero_lookup:
  "or_zero (map_option f (js_get em k)) = (case js_get em k of None \<Rightarrow> 0 | Some e \<Rightarrow> f e)"
  by (cases "js_get em k") simp_all

lemma phaseMarker_none: "phaseStances ph bsd = [] \<Longrightarrow> phaseMarker ph col em mt bsd = []"
  by (simp add: phaseMarker_def)

lemma phaseMarker_some:
  assumes "phaseStances ph bsd \<noteq> []"
  shows "phaseMarker ph col em mt bsd =
     [\<lparr>name = ph,
       start = Min ((\<lambda>s. (case js_get em (stance_id s) of None \<Rightarrow> 0 | Some e \<Rightarrow> ic_ts_ms e) - mt)
                      ` set (phaseStances ph bsd)),
       end_time = Max ((\<lambda>s. (case js_get em (stance_id s) of None \<Rightarrow> 0 | Some e \<Rightarrow> to_ts_ms e) - mt)
                      ` set (phaseStances ph bsd)),
       color = col\<rparr>]"
  using assms
  by (simp add: phaseMarker_def startTimes_def endTimes_def Math_min_map Math_max_map or_zero_lookup Let_def)

lemma set_phaseStances:
  "set (phaseStances ph bsd) =
     {s \<in> set (sm_Left (stance_metrics bsd)) \<union> set (sm_Right (stance_metrics bsd)). phase s = ph}"
  by (auto simp: phaseStances_def)

lemma map_filter_all_present:
  "\<forall>s\<in>set xs. f s \<noteq> None \<Longrightarrow> List.map_filter f xs = map (\<lambda>s. the (f s)) xs"
  by (induction xs) (auto split: option.splits)

lemma startTimes_with_events:
  assumes "\<forall>s\<in>set stances. js_get em (stance_id s) \<noteq> None"
  shows "startTimes em mt stances =
           map (\<lambda>e. ic_ts_ms e - mt) (List.map_filter (\<lambda>s. js_get em (stance_id s)) stances)"
  using assms by (auto simp: startTimes_def map_filter_all_present or_zero_lookup)

lemma endTimes_with_events:
  assumes "\<forall>s\<in>set stances. js_get em (stance_id s) \<noteq> None"
  shows "endTimes em mt stances =
           map (\<lambda>e. to_ts_ms e - mt) (List.map_filter (\<lambda>s. js_get em (stance_id s)) stances)"
  using assms by (auto simp: endTimes_def map_filter_all_present or_zero_lookup)

lemma phaseMarker_with_events:
  assumes "phaseStances ph bsd \<noteq> []"
    and "\<forall>s\<in>set (phaseStances ph bsd). js_get (eventsMapOf (events be)) (stance_id s) \<noteq> None"
  shows "phaseMarker ph col (eventsMapOf (events be)) (globalZero be) bsd =
           [\<lparr>name = ph, start = spec_markerStart ph bsd be, end_time = spec_markerEnd ph bsd be,
             color = col\<rparr>]"
  using assms
  by (simp add: phaseMarker_def Let_def spec_markerStart_def spec_markerEnd_def
      startTimes_with_events endTimes_with_events)

subsection \<open>Region sums\<close>

lemma js_get_js_set: "js_get (js_set m k v) k' = (if k' = k then Some v else js_get m k')"
  by (simp add: js_get_def map_of_js_set)

lemma or_zero_case: "or_zero w = (case w of None \<Rightarrow> 0 | Some v \<Rightarrow> v)"
  by (cases w) simp_all

lemma fold_add_sum: "fold (\<lambda>c acc. acc + f c) cs (a::real) = a + (\<Sum>c\<leftarrow>cs. f c)"
  by (induction cs arbitrary: a) (simp_all add: add.assoc)

lemma regionSum_sum:
  "regionSum chans pt = (\<Sum>c\<leftarrow>chans. case js_get (sensors pt) c of None \<Rightarrow> 0 | Some v \<Rightarrow> v)"
  by (simp add: regionSum_def fold_add_sum or_zero_case)

lemma regionSum_extra_channel:
  assumes "k \<notin> set chans"
  shows "regionSum chans (pt\<lparr>sensors := js_set (sensors pt) k v\<rparr>) = regionSum chans pt"
proof -
  have eq: "(case js_get (js_set (sensors pt) k v) c of None \<Rightarrow> 0 | Some w \<Rightarrow> w) =
            (case js_get (sensors pt) c of None \<Rightarrow> (0::real) | Some w \<Rightarrow> w)"
    if "c \<in> set chans" for c
    using that assms by (auto simp: js_get_js_set)
  show ?thesis
    by (simp add: regionSum_sum eq cong: map_cong)
qed

lemma regionValues_list:
  "regionValues pt = map (\<lambda>entry. (fst entry, regionSum (snd entry) pt)) SENSOR_REGIONS"
  by (simp add: regionValues_def SENSOR_REGIONS_def)

lemma timeline_values:
  "ForeFoot_value (Some pt) = regionSum (the (js_get SENSOR_REGIONS ''ForeFoot'')) pt"
  "UpperMid_value (Some pt) = regionSum (the (js_get SENSOR_REGIONS ''UpperMid'')) pt"
  "LowerMid_value (Some pt) = regionSum (the (js_get SENSOR_REGIONS ''LowerMid'')) pt"
  "Heel_value (Some pt) = regionSum (the (js_get SENSOR_REGIONS ''Heel'')) pt"
  by (simp_all add: ForeFoot_value_def UpperMid_value_def LowerMid_value_def Heel_value_def chan_def
      regionSum_def SENSOR_REGIONS_def js_get_def)

lemma timeline_values_absent:
  "ForeFoot_value None = 0" "UpperMid_value None = 0" "LowerMid_value None = 0" "Heel_value None = 0"
  by (simp_all add: ForeFoot_value_def UpperMid_value_def LowerMid_value_def Heel_value_def chan_def)

subsection \<open>Playback\<close>

text \<open>
  The scrub handler stops the playback and sets the cursor to the reported value, which
  is the clamped value when it lies between 0 and \<open>maxTime\<close>. A run of the callback moves
  the cursor of a stopped state as it moves any other: that none runs after a scrub rests
  on the host having cancelled the pending request.
\<close>

lemma scrub_state:
  "\<not> isPlaying (scrub val st) \<and> currentTime (scrub val st) = of_int val
   \<and> playbackSpeed (scrub val st) = playbackSpeed st"
  by (simp add: scrub_def)

lemma scrub_in_range:
  "0 \<le> val \<Longrightarrow> of_int val \<le> maxTime l r \<Longrightarrow>
     currentTime (scrub val st) = spec_clamp (of_int val) 0 (maxTime l r)"
  by (simp add: scrub_def spec_clamp_def)

lemma animate_after_scrub:
  "currentTime (animate 2000 16 (scrub 120 c9_playing)) = 136"
  by (simp add: animate_def scrub_def c9_playing_def)

lemma maxTime_pos: "0 < maxTime l r"
  by (simp add: maxTime_def Let_def)

section \<open>Properties\<close>

text \<open>
  C1, as amended. The global zero is the minimum \<^verbatim>\<open>ic_ts_ms\<close> over all events of the
  event index of the delivery, referenced by a stance or not, and 0 when the delivery has
  no event; the index holds, for each stance identifier, the last event of the feeds
  (left, then right) with that identifier. When every event of the index is referenced
  by a stance, this is the minimum over the referenced events.
\<close>

theorem globalZero_min_all_events:
  "globalZero be =
     (if leftEvents (events be) @ rightEvents (events be) = [] then 0
      else Min (ic_ts_ms ` {e. \<exists>k. js_get (eventsMapOf (events be)) k = Some e}))
   \<and> js_get (eventsMapOf (events be)) k =
       List.find (\<lambda>e. ev_stance_id e = k) (rev (leftEvents (events be) @ rightEvents (events be)))
   \<and> ((\<forall>k e. js_get (eventsMapOf (events be)) k = Some e \<longrightarrow>
          k \<in> stance_id ` set (sm_Left (stance_metrics bsd) @ sm_Right (stance_metrics bsd)))
        \<longrightarrow> globalZero be = spec_globalZero bsd be)"
  using globalZero_Min [of be] globalZero_all_referenced [of be bsd]
  by (simp only: eventsMapOf_def buildEventsMap_lookup) blast

theorem globalZero_min_all_events_witness:
  "globalZero c7_events = 1000 \<and> spec_globalZero c7_ball c7_events = 1000
   \<and> globalZero \<lparr>be_ball_id = 1, events = EventsArray []\<rparr> = 0"
proof -
  have h: "\<forall>k e. js_get (eventsMapOf (events c7_events)) k = Some e \<longrightarrow>
             k \<in> stance_id ` set (sm_Left (stance_metrics c7_ball) @ sm_Right (stance_metrics c7_ball))"
    by (auto simp: c7_eventsMap js_get_def c7_ball_def mk_ball_def mk_stance_def split: if_splits)
  have e: "leftEvents (events \<lparr>be_ball_id = 1, events = EventsArray []\<rparr>)
             @ rightEvents (events \<lparr>be_ball_id = 1, events = EventsArray []\<rparr>) = []"
    by (simp add: leftEvents_def rightEvents_def)
  note t1 = globalZero_min_all_events [of c7_events _ c7_ball, THEN conjunct2, THEN conjunct2, THEN mp, OF h]
  note t2 = globalZero_min_all_events [of "\<lparr>be_ball_id = 1, events = EventsArray []\<rparr>", THEN conjunct1]
  show ?thesis using t1 t2 e c7_globalZero by simp
qed

text \<open>
  C1 as stated fails: with a left event of identifier 1 at 1000, a right event of
  identifier 2 at 500, and one stance, of identifier 1, the global zero is 500, while
  the minimum over the referenced events is 1000.
\<close>

theorem globalZero_referenced_counterexample:
  "globalZero c1_events = 500 \<and> spec_globalZero c1_ball c1_events = 1000"
  by (simp add: globalZero_def spec_globalZero_def spec_referencedEvents_def List.map_filter_def minTimeOf_def
      eventsMapOf_def buildEventsMap_def leftEvents_def rightEvents_def js_get_def
      c1_events_def c1_ball_def mk_events_def mk_event_def mk_ball_def mk_stance_def)

text \<open>
  C2. Whatever the order of the stances and their local times, the aligned series of each
  foot is non-decreasing in \<^verbatim>\<open>t_ms\<close>, and the samples of one \<^verbatim>\<open>t_ms\<close> stand in the
  order in which the stances pushed them (the concatenation of the shifted stances, in
  the order of the input).
\<close>

theorem aligned_series_sorted_stable:
  "sorted (map t_ms (leftData (syncTimeline bsdo beo)))
   \<and> sorted (map t_ms (rightData (syncTimeline bsdo beo)))
   \<and> filter (\<lambda>p. t_ms p = t) (leftData (syncTimeline (Some bsd) (Some be))) =
       filter (\<lambda>p. t_ms p = t)
         (concat (map (shiftStance (eventsMapOf (events be)) (globalZero be)) (sm_Left (stance_metrics bsd))))
   \<and> filter (\<lambda>p. t_ms p = t) (rightData (syncTimeline (Some bsd) (Some be))) =
       filter (\<lambda>p. t_ms p = t)
         (concat (map (shiftStance (eventsMapOf (events be)) (globalZero be)) (sm_Right (stance_metrics bsd))))
   \<and> sorted (map t_ms (processFoot em mt stances))
   \<and> filter (\<lambda>p. t_ms p = t) (processFoot em mt stances) =
       filter (\<lambda>p. t_ms p = t) (concat (map (shiftStance em mt) stances))"
  by (simp add: syncTimeline_sorted syncTimeline_leftData syncTimeline_rightData processFoot_sorted processFoot_stable)

theorem aligned_series_sorted_stable_witness:
  "sorted (map t_ms [tagged_at 2 0, tagged_at 1 200, tagged_at 2 200, tagged_at 1 205, tagged_at 2 205, tagged_at 1 210])
   \<and> leftData (syncTimeline (Some c2_ball) (Some c2_events)) =
       [tagged_at 2 0, tagged_at 1 200, tagged_at 2 200, tagged_at 1 205, tagged_at 2 205, tagged_at 1 210]"
  using aligned_series_sorted_stable [of "Some c2_ball" "Some c2_events"] c2_leftData by simp

text \<open>
  C3. \<^verbatim>\<open>calculateCoP\<close> returns nothing exactly when the accumulated total force is zero,
  in particular when every channel magnitude is zero and when every channel of positive
  magnitude lacks a centroid; otherwise it returns the force-weighted centroid
  \<open>(weightedX / totalForce, weightedY / totalForce, totalForce)\<close>, the three totals being
  the sums over the channels of positive magnitude with a centroid. Two channels with
  centroids \<open>(0, 0)\<close>, magnitude 10, and \<open>(10, 0)\<close>, magnitude 30, give \<open>x = 7.5\<close> and
  force 40.
\<close>

theorem calculateCoP_force_weighted:
  "calculateCoP cs sv =
     (if (\<Sum>k\<leftarrow>activeChannels cs sv. magnitude sv k) = 0 then None
      else Some \<lparr>cop_x = (\<Sum>k\<leftarrow>activeChannels cs sv. cen_x (the (js_get cs k)) * magnitude sv k)
                          / (\<Sum>k\<leftarrow>activeChannels cs sv. magnitude sv k),
                 cop_y = (\<Sum>k\<leftarrow>activeChannels cs sv. cen_y (the (js_get cs k)) * magnitude sv k)
                          / (\<Sum>k\<leftarrow>activeChannels cs sv. magnitude sv k),
                 force = (\<Sum>k\<leftarrow>activeChannels cs sv. magnitude sv k)\<rparr>)
   \<and> cop_totals cs sv =
       ((\<Sum>k\<leftarrow>activeChannels cs sv. cen_x (the (js_get cs k)) * magnitude sv k),
        (\<Sum>k\<leftarrow>activeChannels cs sv. cen_y (the (js_get cs k)) * magnitude sv k),
        (\<Sum>k\<leftarrow>activeChannels cs sv. magnitude sv k))
   \<and> (calculateCoP cs sv = None \<longleftrightarrow> snd (snd (cop_totals cs sv)) = 0)
   \<and> ((\<forall>k\<in>set (js_keys sv). magnitude sv k = 0) \<longrightarrow> calculateCoP cs sv = None)
   \<and> ((\<forall>k\<in>set (js_keys sv). 0 < magnitude sv k \<longrightarrow> js_get cs k = None) \<longrightarrow> calculateCoP cs sv = None)
   \<and> calculateCoP c3_centroids c3_sensors = Some \<lparr>cop_x = 7.5, cop_y = 0, force = 40\<rparr>"
proof (intro conjI impI)
  show "calculateCoP cs sv = None \<longleftrightarrow> snd (snd (cop_totals cs sv)) = 0"
    by (simp add: calculateCoP_def split: prod.splits)
next
  assume "\<forall>k\<in>set (js_keys sv). magnitude sv k = 0"
  then have "activeChannels cs sv = []"
    by (auto simp: activeChannels_def contributes_def filter_empty_conv)
  then show "calculateCoP cs sv = None" by (simp add: calculateCoP_None_iff)
next
  assume "\<forall>k\<in>set (js_keys sv). 0 < magnitude sv k \<longrightarrow> js_get cs k = None"
  then have "activeChannels cs sv = []"
    by (auto simp: activeChannels_def contributes_def filter_empty_conv)
  then show "calculateCoP cs sv = None" by (simp add: calculateCoP_None_iff)
qed (rule calculateCoP_sums cop_totals_sums c3_example)+

theorem calculateCoP_force_weighted_witness:
  "calculateCoP c3_no_centroid c3_sensors = None \<and> calculateCoP c3_centroids c3_zero = None"
proof -
  have h1: "\<forall>k\<in>set (js_keys c3_sensors). 0 < magnitude c3_sensors k \<longrightarrow> js_get c3_no_centroid k = None"
    by (simp add: js_get_def c3_sensors_def c3_no_centroid_def)
  have h2: "\<forall>k\<in>set (js_keys c3_zero). magnitude c3_zero k = 0"
    by (simp add: magnitude_def js_get_def c3_zero_def)
  note t1 = calculateCoP_force_weighted [of c3_no_centroid c3_sensors, THEN conjunct2, THEN conjunct2, THEN conjunct2, THEN conjunct2, THEN conjunct1]
  note t2 = calculateCoP_force_weighted [of c3_centroids c3_zero, THEN conjunct2, THEN conjunct2, THEN conjunct2, THEN conjunct1]
  show ?thesis using h1 h2 t1 t2 by blast
qed

text \<open>
  C4. \<^verbatim>\<open>findClosestPoint\<close> returns nothing for an empty series, and nothing when the
  target time is more than 50 ms before the first sample or more than 50 ms after the
  last one; otherwise it returns the first sample of the series, in its order, whose
  time is strictly less than 25 ms away from the target, and nothing when no sample is.
  For the times 0, 100, 200 it returns nothing at 300 and the sample of 200 at 210.
\<close>

theorem findClosestPoint_windows:
  "findClosestPoint [] time = None
   \<and> (data \<noteq> [] \<and> (time < t_ms (hd data) - 50 \<or> time > t_ms (last data) + 50)
        \<longrightarrow> findClosestPoint data time = None)
   \<and> (data \<noteq> [] \<and> t_ms (hd data) - 50 \<le> time \<and> time \<le> t_ms (last data) + 50 \<longrightarrow>
        (findClosestPoint data time = Some p \<longleftrightarrow>
           (\<exists>i<length data. data ! i = p \<and> \<bar>t_ms p - time\<bar> < 25
                \<and> (\<forall>j<i. \<not> \<bar>t_ms (data ! j) - time\<bar> < 25)))
        \<and> (findClosestPoint data time = None \<longleftrightarrow> (\<forall>q\<in>set data. \<not> \<bar>t_ms q - time\<bar> < 25)))
   \<and> findClosestPoint c4_series 300 = None
   \<and> findClosestPoint c4_series 210 = Some (sample_at 200)"
proof (intro conjI impI)
  show "findClosestPoint [] time = None" by (simp add: findClosestPoint_def)
next
  assume "data \<noteq> [] \<and> (time < t_ms (hd data) - 50 \<or> time > t_ms (last data) + 50)"
  then show "findClosestPoint data time = None" by (simp add: findClosestPoint_outside)
next
  assume a: "data \<noteq> [] \<and> t_ms (hd data) - 50 \<le> time \<and> time \<le> t_ms (last data) + 50"
  then have eq: "findClosestPoint data time = List.find (\<lambda>p. \<bar>t_ms p - time\<bar> < 25) data"
    by (simp add: findClosestPoint_inside)
  show "findClosestPoint data time = Some p \<longleftrightarrow>
           (\<exists>i<length data. data ! i = p \<and> \<bar>t_ms p - time\<bar> < 25
                \<and> (\<forall>j<i. \<not> \<bar>t_ms (data ! j) - time\<bar> < 25))"
    unfolding eq find_Some_iff by auto
  show "findClosestPoint data time = None \<longleftrightarrow> (\<forall>q\<in>set data. \<not> \<bar>t_ms q - time\<bar> < 25)"
    unfolding eq find_None_iff by auto
next
  show "findClosestPoint c4_series 300 = None"
    by (simp add: findClosestPoint_def c4_series_def sample_at_def)
  show "findClosestPoint c4_series 210 = Some (sample_at 200)"
    by (simp add: findClosestPoint_def c4_series_def sample_at_def)
qed

theorem findClosestPoint_windows_witness:
  "findClosestPoint c4_series (- 51) = None
   \<and> findClosestPoint c4_series 50 = None
   \<and> (\<exists>i<length c4_series. c4_series ! i = sample_at 100 \<and> \<bar>t_ms (sample_at 100) - 90\<bar> < 25)"
proof -
  have ne: "c4_series \<noteq> []" by (simp add: c4_series_def)
  have out: "(- 51 :: real) < t_ms (hd c4_series) - 50 \<or> - 51 > t_ms (last c4_series) + 50"
    by (simp add: c4_series_def sample_at_def)
  have ins: "t_ms (hd c4_series) - 50 \<le> 50 \<and> 50 \<le> t_ms (last c4_series) + 50"
       "t_ms (hd c4_series) - 50 \<le> 90 \<and> 90 \<le> t_ms (last c4_series) + 50"
    by (simp_all add: c4_series_def sample_at_def)
  have none50: "\<forall>q\<in>set c4_series. \<not> \<bar>t_ms q - 50\<bar> < 25"
    by (simp add: c4_series_def sample_at_def)
  have some90: "findClosestPoint c4_series 90 = Some (sample_at 100)"
    by (simp add: findClosestPoint_def c4_series_def sample_at_def)
  note t1 = findClosestPoint_windows [of "- 51" c4_series]
  note t2 = findClosestPoint_windows [of 50 c4_series]
  note t3 = findClosestPoint_windows [of 90 c4_series "sample_at 100"]
  from t1 ne out have "findClosestPoint c4_series (- 51) = None" by blast
  moreover from t2 ne ins(1) none50 have "findClosestPoint c4_series 50 = None" by blast
  moreover from t3 ne ins(2) some90
  have "\<exists>i<length c4_series. c4_series ! i = sample_at 100 \<and> \<bar>t_ms (sample_at 100) - 90\<bar> < 25"
    by blast
  ultimately show ?thesis by blast
qed

text \<open>
  C5. The code departs from the claim on a delivery in which a stance tagged with a
  phase has no event in the index. Where no stance is tagged there is no marker, and
  where every tagged stance has an event the one marker runs from the minimum of
  \<open>ic_ts_ms - minTime\<close> to the maximum of \<open>to_ts_ms - minTime\<close> over the tagged stances
  (\<open>phaseMarker_none\<close>, \<open>phaseMarker_with_events\<close>); two \<^verbatim>\<open>FFC\<close> stances with the
  windows 50 to 90 and 70 to 110 give the marker 50 to 110. With one \<^verbatim>\<open>FFC\<close> stance of
  window 50 to 90 and a second \<^verbatim>\<open>FFC\<close> stance that has no event, \<^verbatim>\<open>processFoot\<close> skips
  the second stance, but the marker takes its timestamps as 0 and starts at \<open>- 1000\<close>,
  where the minimum over the events of the tagged stances is 50.
\<close>

theorem phase_marker_missing_event_divergence:
  "phaseMarkers (syncTimeline (Some c5_ball_orphan) (Some c5_events)) =
     [\<lparr>name = ''FFC'', start = - 1000, end_time = 90, color = ''#2196F3''\<rparr>]
   \<and> spec_markerStart ''FFC'' c5_ball_orphan c5_events = 50
   \<and> spec_markerEnd ''FFC'' c5_ball_orphan c5_events = 90
   \<and> rightData (syncTimeline (Some c5_ball_orphan) (Some c5_events)) = []
   \<and> phaseMarkers (syncTimeline (Some c5_ball) (Some c5_events)) =
       [\<lparr>name = ''FFC'', start = 50, end_time = 110, color = ''#2196F3''\<rparr>]"
  by (simp add: syncTimeline_def phaseMarker_def phaseStances_def startTimes_def endTimes_def minTimeOf_def
      spec_markerStart_def spec_markerEnd_def globalZero_def List.map_filter_def Let_def
      processFoot_def shiftStance_def
      eventsMapOf_def buildEventsMap_def leftEvents_def rightEvents_def js_get_def
      c5_events_def c5_ball_def c5_ball_orphan_def mk_events_def mk_event_def mk_ball_def mk_stance_def)

text \<open>
  C6. A stance whose \<^verbatim>\<open>stance_id\<close> has no event in the index pushes no sample, and the
  aligned series of both feet are the same with the stance as without it, on whichever
  foot it is listed. The function has no failing branch.
\<close>

theorem missing_event_stance_dropped:
  "js_get (eventsMapOf (events be)) (stance_id s) = None \<longrightarrow>
     shiftStance (eventsMapOf (events be)) (globalZero be) s = []
     \<and> leftData (syncTimeline (Some \<lparr>ball_id = b, stance_metrics = \<lparr>sm_Left = xs @ s # ys, sm_Right = rs\<rparr>\<rparr>) (Some be))
         = leftData (syncTimeline (Some \<lparr>ball_id = b, stance_metrics = \<lparr>sm_Left = xs @ ys, sm_Right = rs\<rparr>\<rparr>) (Some be))
     \<and> rightData (syncTimeline (Some \<lparr>ball_id = b, stance_metrics = \<lparr>sm_Left = xs @ s # ys, sm_Right = rs\<rparr>\<rparr>) (Some be))
         = rightData (syncTimeline (Some \<lparr>ball_id = b, stance_metrics = \<lparr>sm_Left = xs @ ys, sm_Right = rs\<rparr>\<rparr>) (Some be))
     \<and> leftData (syncTimeline (Some \<lparr>ball_id = b, stance_metrics = \<lparr>sm_Left = ls, sm_Right = xs @ s # ys\<rparr>\<rparr>) (Some be))
         = leftData (syncTimeline (Some \<lparr>ball_id = b, stance_metrics = \<lparr>sm_Left = ls, sm_Right = xs @ ys\<rparr>\<rparr>) (Some be))
     \<and> rightData (syncTimeline (Some \<lparr>ball_id = b, stance_metrics = \<lparr>sm_Left = ls, sm_Right = xs @ s # ys\<rparr>\<rparr>) (Some be))
         = rightData (syncTimeline (Some \<lparr>ball_id = b, stance_metrics = \<lparr>sm_Left = ls, sm_Right = xs @ ys\<rparr>\<rparr>) (Some be))"
  by (simp add: shiftStance_missing processFoot_drop_missing syncTimeline_leftData syncTimeline_rightData)

theorem missing_event_stance_dropped_witness:
  "shiftStance (eventsMapOf (events c6_events)) (globalZero c6_events) c6_orphan = []
   \<and> leftData (syncTimeline (Some \<lparr>ball_id = 1, stance_metrics = \<lparr>sm_Left = [c6_first] @ c6_orphan # [], sm_Right = [c6_second]\<rparr>\<rparr>) (Some c6_events))
       = leftData (syncTimeline (Some \<lparr>ball_id = 1, stance_metrics = \<lparr>sm_Left = [c6_first] @ [], sm_Right = [c6_second]\<rparr>\<rparr>) (Some c6_events))
   \<and> leftData (syncTimeline (Some \<lparr>ball_id = 1, stance_metrics = \<lparr>sm_Left = [c6_first] @ [], sm_Right = [c6_second]\<rparr>\<rparr>) (Some c6_events))
       = [sample_at 0, sample_at 5]"
proof -
  have h: "js_get (eventsMapOf (events c6_events)) (stance_id c6_orphan) = None"
    by (simp add: c6_eventsMap js_get_def c6_orphan_def mk_stance_def)
  have v: "leftData (syncTimeline (Some \<lparr>ball_id = 1, stance_metrics = \<lparr>sm_Left = [c6_first] @ [], sm_Right = [c6_second]\<rparr>\<rparr>) (Some c6_events))
       = [sample_at 0, sample_at 5]"
    by (simp add: syncTimeline_leftData globalZero_def c6_eventsMap minTimeOf_def processFoot_def shiftStance_def
        js_get_def c6_first_def mk_stance_def mk_event_def sample_at_def)
  note t = missing_event_stance_dropped [of c6_events c6_orphan 1 "[c6_first]" "[]" "[c6_second]"]
  show ?thesis using t h v by blast
qed

text \<open>
  C7. A stance with an event \<open>e\<close> pushes one sample for each of its samples, in order,
  with \<^verbatim>\<open>t_ms\<close> raised by the offset \<open>ic_ts_ms e - minTime\<close> and every other field as it
  was; the aligned series of a foot consists of exactly the samples its stances push.
  Local times 0, 5, 10 with \<^verbatim>\<open>ic_ts_ms = 1200\<close> and global zero 1000 give 200, 205, 210.
\<close>

theorem offset_applied:
  "(js_get em (stance_id s) = Some e \<longrightarrow>
      shiftStance em mt s = map (\<lambda>pt. pt\<lparr>t_ms := t_ms pt + (ic_ts_ms e - mt)\<rparr>) (cop_trajectory s)
      \<and> length (shiftStance em mt s) = length (cop_trajectory s)
      \<and> (\<forall>i<length (cop_trajectory s).
            t_ms (shiftStance em mt s ! i) = t_ms (cop_trajectory s ! i) + (ic_ts_ms e - mt)
            \<and> pt_x (shiftStance em mt s ! i) = pt_x (cop_trajectory s ! i)
            \<and> pt_y (shiftStance em mt s ! i) = pt_y (cop_trajectory s ! i)
            \<and> sumW (shiftStance em mt s ! i) = sumW (cop_trajectory s ! i)
            \<and> sensors (shiftStance em mt s ! i) = sensors (cop_trajectory s ! i)))
   \<and> set (processFoot em mt stances) = (\<Union>s\<in>set stances. set (shiftStance em mt s))
   \<and> length (processFoot em mt stances) = (\<Sum>s\<leftarrow>stances. length (shiftStance em mt s))
   \<and> leftData (syncTimeline (Some bsd) (Some be)) =
       processFoot (eventsMapOf (events be)) (globalZero be) (sm_Left (stance_metrics bsd))
   \<and> rightData (syncTimeline (Some bsd) (Some be)) =
       processFoot (eventsMapOf (events be)) (globalZero be) (sm_Right (stance_metrics bsd))
   \<and> globalZero c7_events = 1000
   \<and> map t_ms (concat (map cop_trajectory (sm_Left (stance_metrics c7_ball)))) = [0, 5, 10]
   \<and> map t_ms (leftData (syncTimeline (Some c7_ball) (Some c7_events))) = [200, 205, 210]"
proof (intro conjI impI)
  assume e: "js_get em (stance_id s) = Some e"
  show eq: "shiftStance em mt s = map (\<lambda>pt. pt\<lparr>t_ms := t_ms pt + (ic_ts_ms e - mt)\<rparr>) (cop_trajectory s)"
    using e by (rule shiftStance_present)
  show "length (shiftStance em mt s) = length (cop_trajectory s)"
    by (simp add: eq)
  show "\<forall>i<length (cop_trajectory s).
            t_ms (shiftStance em mt s ! i) = t_ms (cop_trajectory s ! i) + (ic_ts_ms e - mt)
            \<and> pt_x (shiftStance em mt s ! i) = pt_x (cop_trajectory s ! i)
            \<and> pt_y (shiftStance em mt s ! i) = pt_y (cop_trajectory s ! i)
            \<and> sumW (shiftStance em mt s ! i) = sumW (cop_trajectory s ! i)
            \<and> sensors (shiftStance em mt s ! i) = sensors (cop_trajectory s ! i)"
    by (simp add: eq)
next
  show "map t_ms (concat (map cop_trajectory (sm_Left (stance_metrics c7_ball)))) = [0, 5, 10]"
    by (simp add: c7_ball_def mk_ball_def mk_stance_def sample_at_def)
  show "map t_ms (leftData (syncTimeline (Some c7_ball) (Some c7_events))) = [200, 205, 210]"
    by (simp add: c7_leftData sample_at_def)
qed (rule set_processFoot length_processFoot syncTimeline_leftData syncTimeline_rightData c7_globalZero)+

theorem offset_applied_witness:
  "shiftStance [(1, mk_event 1 ''Left'' 1200 1300)] 1000 (mk_stance 1 ''Left'' ''FFC'' [sample_at 0, sample_at 5, sample_at 10])
     = [sample_at 200, sample_at 205, sample_at 210]"
proof -
  have h: "js_get [(1, mk_event 1 ''Left'' 1200 1300)] (stance_id (mk_stance 1 ''Left'' ''FFC'' [sample_at 0, sample_at 5, sample_at 10]))
             = Some (mk_event 1 ''Left'' 1200 1300)"
    by (simp add: js_get_def mk_stance_def)
  note t = offset_applied [of "[(1, mk_event 1 ''Left'' 1200 1300)]"
      "mk_stance 1 ''Left'' ''FFC'' [sample_at 0, sample_at 5, sample_at 10]" "mk_event 1 ''Left'' 1200 1300" 1000,
      THEN conjunct1, rule_format, OF h, THEN conjunct1]
  show ?thesis unfolding t by (simp add: mk_stance_def mk_event_def sample_at_def)
qed

text \<open>
  C8. For every sample, the value of a region is the sum of the magnitudes of the
  channels configured for the region, a channel the sample lacks counting as zero, and
  setting a channel that is not configured for the region leaves the value as it was.
  The sums \<^verbatim>\<open>RegionalPressureTimeline\<close> writes out are those of \<^verbatim>\<open>SENSOR_REGIONS\<close>, taken
  on the first sample of the foot at each time (zero when there is none).
\<close>

theorem region_sum_configured_channels:
  "regionSum chans pt = (\<Sum>c\<leftarrow>chans. case js_get (sensors pt) c of None \<Rightarrow> 0 | Some v \<Rightarrow> v)
   \<and> (k \<notin> set chans \<longrightarrow> regionSum chans (pt\<lparr>sensors := js_set (sensors pt) k v\<rparr>) = regionSum chans pt)
   \<and> regionValues pt = map (\<lambda>entry. (fst entry, regionSum (snd entry) pt)) SENSOR_REGIONS
   \<and> ForeFoot_value (Some pt) = regionSum (the (js_get SENSOR_REGIONS ''ForeFoot'')) pt
   \<and> UpperMid_value (Some pt) = regionSum (the (js_get SENSOR_REGIONS ''UpperMid'')) pt
   \<and> LowerMid_value (Some pt) = regionSum (the (js_get SENSOR_REGIONS ''LowerMid'')) pt
   \<and> Heel_value (Some pt) = regionSum (the (js_get SENSOR_REGIONS ''Heel'')) pt
   \<and> ForeFoot_value None = 0 \<and> UpperMid_value None = 0 \<and> LowerMid_value None = 0 \<and> Heel_value None = 0
   \<and> map row_Left (regionRows regionValue leftFootData rightFootData) =
       map (\<lambda>t. regionValue (List.find (\<lambda>p. t_ms p = t) leftFootData)) (sortedTimes leftFootData rightFootData)
   \<and> map row_Right (regionRows regionValue leftFootData rightFootData) =
       map (\<lambda>t. regionValue (List.find (\<lambda>p. t_ms p = t) rightFootData)) (sortedTimes leftFootData rightFootData)"
proof (intro conjI impI)
  assume "k \<notin> set chans"
  then show "regionSum chans (pt\<lparr>sensors := js_set (sensors pt) k v\<rparr>) = regionSum chans pt"
    by (rule regionSum_extra_channel)
next
  show "map row_Left (regionRows regionValue leftFootData rightFootData) =
       map (\<lambda>t. regionValue (List.find (\<lambda>p. t_ms p = t) leftFootData)) (sortedTimes leftFootData rightFootData)"
    by (simp add: regionRows_def comp_def)
  show "map row_Right (regionRows regionValue leftFootData rightFootData) =
       map (\<lambda>t. regionValue (List.find (\<lambda>p. t_ms p = t) rightFootData)) (sortedTimes leftFootData rightFootData)"
    by (simp add: regionRows_def comp_def)
qed (rule regionSum_sum regionValues_list timeline_values timeline_values_absent)+

theorem region_sum_configured_channels_witness:
  "regionSum [''S1'', ''S2''] (c8_point\<lparr>sensors := js_set (sensors c8_point) ''S9'' 100\<rparr>) = 3
   \<and> regionSum [''S1'', ''S2''] c8_point = 3
   \<and> regionSum [''S3'', ''S4'', ''S5''] c8_point = 3"
proof -
  have h: "''S9'' \<notin> set [''S1'', ''S2'']" by simp
  note t = region_sum_configured_channels [of "[''S1'', ''S2'']" c8_point "''S9''" 100,
      THEN conjunct2, THEN conjunct1, THEN mp, OF h]
  have a: "regionSum [''S1'', ''S2''] c8_point = 3"
    by (simp add: regionSum_def js_get_def c8_point_def)
  have b: "regionSum [''S3'', ''S4'', ''S5''] c8_point = 3"
    by (simp add: regionSum_def js_get_def c8_point_def)
  show ?thesis using t a b by simp
qed

text \<open>
  C10. Whenever \<^verbatim>\<open>calculateCoP\<close> returns a result, its force is strictly positive and is
  the accumulated total force, so the two divisions have a non-zero divisor; a channel
  whose magnitude is zero or negative, or that has no centroid, leaves all three
  accumulators as they are, and the total force is the sum of the magnitudes of the
  channels that have a positive magnitude and a centroid.
\<close>

theorem calculateCoP_force_positive:
  "(calculateCoP cs sv = Some r \<longrightarrow>
      0 < force r \<and> force r = snd (snd (cop_totals cs sv)) \<and> snd (snd (cop_totals cs sv)) \<noteq> 0
      \<and> cop_x r = fst (cop_totals cs sv) / force r
      \<and> cop_y r = fst (snd (cop_totals cs sv)) / force r)
   \<and> (magnitude sv k \<le> 0 \<or> js_get cs k = None \<longrightarrow> cop_step cs sv k acc = acc)
   \<and> (0 < magnitude sv k \<and> js_get cs k = Some c \<longrightarrow>
        cop_step cs sv k (wx, wy, f) = (wx + cen_x c * magnitude sv k, wy + cen_y c * magnitude sv k, f + magnitude sv k))
   \<and> snd (snd (cop_totals cs sv)) = (\<Sum>k\<leftarrow>activeChannels cs sv. magnitude sv k)
   \<and> (\<forall>k\<in>set (activeChannels cs sv). 0 < magnitude sv k \<and> js_get cs k \<noteq> None)"
proof (intro conjI impI)
  assume r: "calculateCoP cs sv = Some r"
  then have ne: "activeChannels cs sv \<noteq> []"
    using calculateCoP_None_iff [of cs sv] by auto
  then have pos: "0 < (\<Sum>k\<leftarrow>activeChannels cs sv. magnitude sv k)"
    by (simp add: totalForce_pos_iff)
  have f: "force r = (\<Sum>k\<leftarrow>activeChannels cs sv. magnitude sv k)"
    using r pos by (auto simp: calculateCoP_sums)
  show "0 < force r" using pos f by simp
  show "force r = snd (snd (cop_totals cs sv))" using f by (simp add: cop_totals_sums)
  show "snd (snd (cop_totals cs sv)) \<noteq> 0" using pos by (simp add: cop_totals_sums)
  show "cop_x r = fst (cop_totals cs sv) / force r"
    using r pos by (auto simp: calculateCoP_sums cop_totals_sums)
  show "cop_y r = fst (snd (cop_totals cs sv)) / force r"
    using r pos by (auto simp: calculateCoP_sums cop_totals_sums)
next
  assume "magnitude sv k \<le> 0 \<or> js_get cs k = None"
  then show "cop_step cs sv k acc = acc"
    by (cases acc; cases "js_get cs k") (auto simp: cop_step_def magnitude_def Let_def)
next
  assume "0 < magnitude sv k \<and> js_get cs k = Some c"
  then show "cop_step cs sv k (wx, wy, f) = (wx + cen_x c * magnitude sv k, wy + cen_y c * magnitude sv k, f + magnitude sv k)"
    by (simp add: cop_step_def magnitude_def Let_def)
next
  show "snd (snd (cop_totals cs sv)) = (\<Sum>k\<leftarrow>activeChannels cs sv. magnitude sv k)"
    by (simp add: cop_totals_sums)
  show "\<forall>k\<in>set (activeChannels cs sv). 0 < magnitude sv k \<and> js_get cs k \<noteq> None"
    by (simp add: activeChannels_def contributes_def)
qed

theorem calculateCoP_force_positive_witness:
  "calculateCoP c3_centroids c10_sensors = Some \<lparr>cop_x = 7.5, cop_y = 0, force = 40\<rparr>
   \<and> 0 < force \<lparr>cop_x = 7.5, cop_y = 0, force = 40\<rparr>
   \<and> magnitude c10_sensors ''S3'' \<le> 0
   \<and> cop_step c3_centroids c10_sensors ''S3'' (1, 2, 3) = (1, 2, 3)"
proof -
  have h1: "calculateCoP c3_centroids c10_sensors = Some \<lparr>cop_x = 7.5, cop_y = 0, force = 40\<rparr>"
    by (simp add: calculateCoP_def cop_totals_def cop_step_def js_get_def c3_centroids_def c10_sensors_def)
  have h2: "magnitude c10_sensors ''S3'' \<le> 0"
    by (simp add: magnitude_def js_get_def c10_sensors_def)
  note t = calculateCoP_force_positive [of c3_centroids c10_sensors "\<lparr>cop_x = 7.5, cop_y = 0, force = 40\<rparr>" "''S3''" "(1, 2, 3)"]
  from t h1 have "0 < force \<lparr>cop_x = 7.5, cop_y = 0, force = 40\<rparr>" by blast
  moreover from t h2 have "cop_step c3_centroids c10_sensors ''S3'' (1, 2, 3) = (1, 2, 3)" by blast
  ultimately show ?thesis using h1 h2 by blast
qed

end
